theory Spec2Isabelle
  imports Complex_Main "HOL-Library.Word"
begin

section \<open>Temporal debouncer (hook useGestureDetection, function processGesture)\<close>

text \<open>
  The source type is
  \<^verbatim>\<open>GestureType = "SWIPE_LEFT" | "SWIPE_RIGHT" | "OPEN_PALM" | "CLOSED_FIST" | "POINTING" | "THUMB_UP" | null\<close>.
  The six string literals are the constructors of \<open>gesture\<close>; \<open>null\<close> (the spec's NONE)
  is \<open>None\<close>.
\<close>

datatype gesture = SWIPE_LEFT | SWIPE_RIGHT | OPEN_PALM | CLOSED_FIST | POINTING | THUMB_UP

type_synonym GestureType = "gesture option"

text \<open>
  The options of the hook that carry a default in its parameter list. JavaScript numbers
  are modelled as reals: \<open>Date.now()\<close> is an integral number of milliseconds, and the
  comparisons below are exact on such values.
\<close>

record GestureDetectionOptions =
  debounceMs :: real
  confidenceThreshold :: real
  smoothingFrames :: nat

definition defaultOptions :: GestureDetectionOptions where
  "defaultOptions = \<lparr>debounceMs = 800, confidenceThreshold = 0.7, smoothingFrames = 3\<rparr>"

text \<open>The two refs \<open>lastGestureTimeRef\<close> and \<open>lastGestureTypeRef\<close>, with their initial values.\<close>

record DebounceState =
  lastGestureTime :: real
  lastGestureType :: GestureType

definition freshState :: DebounceState where
  "freshState = \<lparr>lastGestureTime = 0, lastGestureType = None\<rparr>"

text \<open>
  \<open>processGesture\<close> reads the clock once (\<open>now = Date.now()\<close>); the reading is the
  argument \<open>now\<close>. The result is the state of the two refs after the call and the
  arguments of the call to \<open>onGestureDetected\<close>, if the call is made. The React display
  state (\<open>currentGesture\<close>, \<open>gestureConfidence\<close> and the 1500 ms timer that clears them)
  is written only on the accepting path and is never read by \<open>processGesture\<close>; it is left out.
\<close>

definition processGesture ::
  "GestureDetectionOptions \<Rightarrow> DebounceState \<Rightarrow> real \<Rightarrow> GestureType \<Rightarrow> real
     \<Rightarrow> DebounceState \<times> (GestureType \<times> real) option" where
  "processGesture opts s now gesture confidence =
     (if now - lastGestureTime s < debounceMs opts then (s, None)
      else if gesture = lastGestureType s \<and> now - lastGestureTime s < debounceMs opts * 1.5
        then (s, None)
      else (\<lparr>lastGestureTime = now, lastGestureType = gesture\<rparr>, Some (gesture, confidence)))"

text \<open>
  A candidate is a gesture label with its confidence and the clock reading at which it is
  submitted; an emitted event is the accepted candidate.
\<close>

record GestureEvent =
  ev_type :: GestureType
  ev_confidence :: real
  ev_timestamp :: real

text \<open>Feeding a sequence of candidates, in order; the result lists the emitted events.\<close>

fun emitted :: "GestureDetectionOptions \<Rightarrow> DebounceState \<Rightarrow> GestureEvent list \<Rightarrow> GestureEvent list" where
  "emitted opts s [] = []"
| "emitted opts s (c # cs) =
     (case processGesture opts s (ev_timestamp c) (ev_type c) (ev_confidence c) of
        (s', None) \<Rightarrow> emitted opts s' cs
      | (s', Some (g, conf)) \<Rightarrow>
          \<lparr>ev_type = g, ev_confidence = conf, ev_timestamp = ev_timestamp c\<rparr> # emitted opts s' cs)"

declare emitted.simps(2) [simp del]

text \<open>A candidate with a gesture label, as the scenarios write it.\<close>

definition candidate :: "gesture \<Rightarrow> real \<Rightarrow> real \<Rightarrow> GestureEvent" where
  "candidate g conf t = \<lparr>ev_type = Some g, ev_confidence = conf, ev_timestamp = t\<rparr>"

section \<open>Landmark classifier (component SmartPresentationWithMediaPipe, function detectGesture)\<close>

text \<open>The interface \<open>HandLandmark\<close>; coordinates are JavaScript numbers, modelled as reals.\<close>

record HandLandmark =
  x :: real
  y :: real
  z :: real

type_synonym hand = "HandLandmark list"

text \<open>
  \<open>detectGesture\<close> returns \<open>string | null\<close>. The parameter has the array type
  \<open>HandLandmark[]\<close>; an array shorter than 21 gives \<open>null\<close>, so every index read
  below is in range.
\<close>

definition detectGesture :: "hand \<Rightarrow> string option" where
  "detectGesture landmarks =
     (if length landmarks < 21 then None
      else
        let wrist = landmarks ! 0;
            thumbTip = landmarks ! 4;
            indexTip = landmarks ! 8;
            middleTip = landmarks ! 12;
            ringTip = landmarks ! 16;
            pinkyTip = landmarks ! 20
        in
          if y thumbTip < y wrist - 0.1 \<and> y indexTip > y wrist \<and> y middleTip > y wrist
            then Some ''thumbs_up''
          else if y indexTip < y wrist - 0.05 \<and> y middleTip > y wrist \<and> y ringTip > y wrist
                  \<and> y pinkyTip > y wrist
            then Some ''pointing''
          else if y thumbTip < y wrist \<and> y indexTip < y wrist \<and> y middleTip < y wrist
                  \<and> y ringTip < y wrist \<and> y pinkyTip < y wrist
            then Some ''open_palm''
          else None)"

section \<open>Calibration collector (component CalibrationModal)\<close>

text \<open>
  The keys of \<open>CalibrationData\<close>, which are also the \<open>gesture\<close> fields of the
  calibration steps.
\<close>

datatype gestureKey = thumbUp | pinkyUp | openPalm | closedFist | pointing

text \<open>
  The five nested objects of a \<open>CalibrationData\<close>, one constructor per shape. The
  \<open>samples\<close> array is reachable only through its object, so it is kept inside it.
\<close>

datatype stepData =
    ThumbUpData (samples: "hand list") (thumbExtension: real) (thumbTipY: real) (wristY: real)
  | PinkyUpData (samples: "hand list") (pinkyExtension: real) (pinkyTipY: real) (wristY: real)
  | OpenPalmData (samples: "hand list") (fingerExtensions: "real list")
  | ClosedFistData (samples: "hand list") (fingerCurls: "real list")
  | PointingData (samples: "hand list") (indexExtension: real)

text \<open>
  The nested objects live in a store and a \<open>CalibrationData\<close> object holds one
  reference per key: the spread \<open>{ ...prevData }\<close> copies the five references, not the
  objects, and the updater then writes through them.
\<close>

type_synonym addr = nat

type_synonym store = "addr \<rightharpoonup> stepData"

type_synonym CalibrationData = "gestureKey \<Rightarrow> addr"

text \<open>The module-level constant \<open>EMPTY_CALIBRATION_DATA\<close> and the objects it allocates.\<close>

fun EMPTY_CALIBRATION_DATA :: CalibrationData where
  "EMPTY_CALIBRATION_DATA thumbUp = 0"
| "EMPTY_CALIBRATION_DATA pinkyUp = 1"
| "EMPTY_CALIBRATION_DATA openPalm = 2"
| "EMPTY_CALIBRATION_DATA closedFist = 3"
| "EMPTY_CALIBRATION_DATA pointing = 4"

definition moduleStore :: store where
  "moduleStore =
     [0 \<mapsto> ThumbUpData [] 0 0 0,
      1 \<mapsto> PinkyUpData [] 0 0 0,
      2 \<mapsto> OpenPalmData [] [0, 0, 0, 0],
      3 \<mapsto> ClosedFistData [] [0, 0, 0, 0],
      4 \<mapsto> PointingData [] 0]"

text \<open>\<open>CALIBRATION_STEPS\<close>: the \<open>id\<close> of each step and its \<open>gesture\<close>, where it has one.\<close>

definition CALIBRATION_STEPS :: "(string \<times> gestureKey option) list" where
  "CALIBRATION_STEPS =
     [(''intro'', None),
      (''thumbUp'', Some thumbUp),
      (''pinkyUp'', Some pinkyUp),
      (''openPalm'', Some openPalm),
      (''closedFist'', Some closedFist),
      (''pointing'', Some pointing),
      (''complete'', None)]"

definition samplesNeeded :: nat where
  "samplesNeeded = 10"

datatype DetectionStatus = waiting | detecting | success | error

text \<open>
  The state of the component: the store, the React state variables and whether the
  timer of \<open>collectionIntervalRef\<close> is armed. \<open>calibrationProgress\<close> is display only.
  The callback of the 10 s timer writes \<open>isCollecting\<close> and \<open>detectionStatus\<close>
  alone; its firing is not part of the model.
\<close>

record CalibrationModal =
  heap :: store
  calibrationData :: CalibrationData
  currentStep :: nat
  samplesCollected :: nat
  isCollecting :: bool
  detectionStatus :: DetectionStatus
  collectionTimer :: bool

definition initialModal :: CalibrationModal where
  "initialModal =
     \<lparr>heap = moduleStore, calibrationData = EMPTY_CALIBRATION_DATA, currentStep = 0,
      samplesCollected = 0, isCollecting = False, detectionStatus = waiting,
      collectionTimer = False\<rparr>"

text \<open>\<open>CALIBRATION_STEPS[currentStep]?.gesture\<close>\<close>

definition currentGesture :: "CalibrationModal \<Rightarrow> gestureKey option" where
  "currentGesture m =
     (if currentStep m < length CALIBRATION_STEPS then snd (CALIBRATION_STEPS ! currentStep m)
      else None)"

text \<open>
  The updater passed to \<open>setCalibrationData\<close> in the landmark effect, as a function on the
  store: \<open>cd\<close> is \<open>updatedData\<close>, the copy of the references. Each branch pushes the
  sample first and then reads \<open>samples.length\<close>, so the length it uses counts the new
  sample. \<open>foldAverage\<close> is the expression
  \<^verbatim>\<open>(avg * samples.length + value) / (samples.length + 1)\<close> of every branch, \<open>len\<close>
  being \<open>samples.length\<close> as read there. The stored lists \<open>fingerExtensions\<close>
  and \<open>fingerCurls\<close> start with four entries and \<open>map\<close> keeps their length, so
  the reads \<open>exts ! i\<close> and \<open>curls ! i\<close> are in range. An object of another shape
  than its key's is not written (the source never creates one).
\<close>

definition foldAverage :: "real \<Rightarrow> nat \<Rightarrow> real \<Rightarrow> real" where
  "foldAverage old len sample = (old * real len + sample) / (real len + 1)"

fun addSample :: "gestureKey \<Rightarrow> hand \<Rightarrow> CalibrationData \<Rightarrow> store \<Rightarrow> store" where
  "addSample thumbUp landmarks cd st =
     (case st (cd thumbUp) of
        Some (ThumbUpData ss te ty wy) \<Rightarrow>
          (let wrist = landmarks ! 0;
               thumbTip = landmarks ! 4;
               ext = y wrist - y thumbTip;
               ss' = ss @ [landmarks];
               te' = foldAverage te (length ss') ext;
               ty' = foldAverage ty (length ss') (y thumbTip);
               wy' = foldAverage wy (length ss') (y wrist)
           in st(cd thumbUp \<mapsto> ThumbUpData ss' te' ty' wy'))
      | _ \<Rightarrow> st)"
| "addSample pinkyUp landmarks cd st =
     (case st (cd pinkyUp) of
        Some (PinkyUpData ss pe py wy) \<Rightarrow>
          (let wrist = landmarks ! 0;
               pinkyTip = landmarks ! 20;
               ext = y wrist - y pinkyTip;
               ss' = ss @ [landmarks];
               pe' = foldAverage pe (length ss') ext;
               py' = foldAverage py (length ss') (y pinkyTip);
               wy' = foldAverage wy (length ss') (y wrist)
           in st(cd pinkyUp \<mapsto> PinkyUpData ss' pe' py' wy'))
      | _ \<Rightarrow> st)"
| "addSample openPalm landmarks cd st =
     (case st (cd openPalm) of
        Some (OpenPalmData ss fe) \<Rightarrow>
          (let wrist = landmarks ! 0;
               indexTip = landmarks ! 8;
               middleTip = landmarks ! 12;
               ringTip = landmarks ! 16;
               pinkyTip = landmarks ! 20;
               exts = [y wrist - y indexTip, y wrist - y middleTip, y wrist - y ringTip,
                       y wrist - y pinkyTip];
               ss' = ss @ [landmarks];
               fe' = (if length fe = 0 then exts
                      else map (\<lambda>i. foldAverage (fe ! i) (length ss') (exts ! i)) [0..<length fe])
           in st(cd openPalm \<mapsto> OpenPalmData ss' fe'))
      | _ \<Rightarrow> st)"
| "addSample closedFist landmarks cd st =
     (case st (cd closedFist) of
        Some (ClosedFistData ss fc) \<Rightarrow>
          (let indexPip = landmarks ! 6;
               indexTip = landmarks ! 8;
               middlePip = landmarks ! 10;
               middleTip = landmarks ! 12;
               ringPip = landmarks ! 14;
               ringTip = landmarks ! 16;
               pinkyPip = landmarks ! 18;
               pinkyTip = landmarks ! 20;
               curls = [y indexTip - y indexPip, y middleTip - y middlePip,
                        y ringTip - y ringPip, y pinkyTip - y pinkyPip];
               ss' = ss @ [landmarks];
               fc' = (if length fc = 0 then curls
                      else map (\<lambda>i. foldAverage (fc ! i) (length ss') (curls ! i)) [0..<length fc])
           in st(cd closedFist \<mapsto> ClosedFistData ss' fc'))
      | _ \<Rightarrow> st)"
| "addSample pointing landmarks cd st =
     (case st (cd pointing) of
        Some (PointingData ss ie) \<Rightarrow>
          (let wrist = landmarks ! 0;
               indexTip = landmarks ! 8;
               ext = y wrist - y indexTip;
               ss' = ss @ [landmarks];
               ie' = foldAverage ie (length ss') ext
           in st(cd pointing \<mapsto> PointingData ss' ie'))
      | _ \<Rightarrow> st)"

definition stopCollecting :: "CalibrationModal \<Rightarrow> CalibrationModal" where
  "stopCollecting m = m\<lparr>isCollecting := False, collectionTimer := False\<rparr>"

definition startCollecting :: "CalibrationModal \<Rightarrow> CalibrationModal" where
  "startCollecting m =
     m\<lparr>isCollecting := True, samplesCollected := 0, detectionStatus := detecting,
       collectionTimer := True\<rparr>"

text \<open>
  The landmark effect, run on a new value of the prop \<open>handLandmarks\<close>
  (\<open>any[] | null\<close>, one entry per hand): the guards, the sample folded in, the count
  incremented.
\<close>

definition onHandLandmarks :: "hand list option \<Rightarrow> CalibrationModal \<Rightarrow> CalibrationModal" where
  "onHandLandmarks handLandmarks m =
     (case (handLandmarks, currentGesture m) of
        (Some (landmarks # _), Some g) \<Rightarrow>
          if \<not> isCollecting m \<or> length landmarks < 21 then m
          else
            let m1 = m\<lparr>heap := addSample g landmarks (calibrationData m) (heap m)\<rparr>;
                newCount = samplesCollected m + 1;
                m2 = (if newCount \<ge> samplesNeeded
                      then (stopCollecting m1)\<lparr>detectionStatus := success\<rparr> else m1)
            in m2\<lparr>samplesCollected := newCount\<rparr>
      | _ \<Rightarrow> m)"

text \<open>The calls the component makes on its props.\<close>

datatype callback = onCalibrationComplete CalibrationData | onClose

definition nextStep :: "CalibrationModal \<Rightarrow> CalibrationModal \<times> callback list" where
  "nextStep m =
     (if currentStep m < length CALIBRATION_STEPS - 1
      then (stopCollecting
              (m\<lparr>currentStep := currentStep m + 1, detectionStatus := waiting,
                 samplesCollected := 0\<rparr>), [])
      else (m, [onCalibrationComplete (calibrationData m), onClose]))"

definition prevStep :: "CalibrationModal \<Rightarrow> CalibrationModal \<times> callback list" where
  "prevStep m =
     (if currentStep m > 0
      then (stopCollecting
              (m\<lparr>currentStep := currentStep m - 1, detectionStatus := waiting,
                 samplesCollected := 0\<rparr>), [])
      else (m, [onClose]))"

definition resetStep :: "CalibrationModal \<Rightarrow> CalibrationModal" where
  "resetStep m =
     (let m1 = stopCollecting (m\<lparr>detectionStatus := waiting, samplesCollected := 0\<rparr>)
      in case currentGesture m of
           Some g \<Rightarrow>
             m1\<lparr>calibrationData := (calibrationData m1)(g := EMPTY_CALIBRATION_DATA g)\<rparr>
         | None \<Rightarrow> m1)"

definition cancelCalibration :: "CalibrationModal \<Rightarrow> CalibrationModal \<times> callback list" where
  "cancelCalibration m = (stopCollecting m, [onClose])"

text \<open>Reading a nested object through the component's state, as \<open>calibrationData[g]\<close> does.\<close>

definition stepOf :: "CalibrationModal \<Rightarrow> gestureKey \<Rightarrow> stepData option" where
  "stepOf m g = heap m (calibrationData m g)"

subsection \<open>Example hands and sessions\<close>

text \<open>
  Example hands: 21 landmarks with the wrist (index 0) at height \<open>wy\<close>, the thumb tip
  (4) at \<open>ty\<close>, the four other fingertips (8, 12, 16, 20) at \<open>fy\<close> and their middle
  joints (6, 10, 14, 18) at \<open>py\<close>. Image coordinates grow downwards.
\<close>

definition poseHand :: "real \<Rightarrow> real \<Rightarrow> real \<Rightarrow> real \<Rightarrow> hand" where
  "poseHand wy ty fy py =
     map (\<lambda>i. \<lparr>x = 0.5,
               y = (if i = 0 then wy
                    else if i = 4 then ty
                    else if i \<in> {8, 12, 16, 20} then fy
                    else if i \<in> {6, 10, 14, 18} then py
                    else wy),
               z = 0\<rparr>) [0..<21]"

definition fistHand :: hand where
  "fistHand = poseHand 0.5 0.6 0.9 0.6"

definition thumbHand :: hand where
  "thumbHand = poseHand 0.8 0.4 0.9 0.85"

definition steadyHand :: hand where
  "steadyHand = poseHand 0.8 0.25 0.9 0.85"

definition faintThumbHand :: hand where
  "faintThumbHand = poseHand 0.5 0.39 0.9 0.6"

text \<open>The same frame delivered \<open>n\<close> times in succession.\<close>

fun feedFrames :: "nat \<Rightarrow> hand list option \<Rightarrow> CalibrationModal \<Rightarrow> CalibrationModal" where
  "feedFrames 0 handLandmarks m = m"
| "feedFrames (Suc n) handLandmarks m = onHandLandmarks handLandmarks (feedFrames n handLandmarks m)"

declare feedFrames.simps [simp del]

text \<open>The user on the first gesture step, having pressed Start.\<close>

definition thumbStepStarted :: CalibrationModal where
  "thumbStepStarted = startCollecting (fst (nextStep initialModal))"

text \<open>
  A whole calibration session: on each of the five gesture steps the user presses Start,
  ten frames of the same hand arrive, and the user presses Next.
\<close>

definition calibrateStep :: "hand \<Rightarrow> CalibrationModal \<Rightarrow> CalibrationModal" where
  "calibrateStep h m = fst (nextStep (feedFrames samplesNeeded (Some [h]) (startCollecting m)))"

definition calibratedModal :: CalibrationModal where
  "calibratedModal =
     calibrateStep steadyHand (calibrateStep steadyHand (calibrateStep steadyHand
       (calibrateStep steadyHand (calibrateStep steadyHand (fst (nextStep initialModal))))))"

text \<open>The thumb step after \<open>n\<close> frames of \<open>thumbHand\<close>, and after one frame and a press on Reset.\<close>

definition thumbStepSampled :: "nat \<Rightarrow> CalibrationModal" where
  "thumbStepSampled n = feedFrames n (Some [thumbHand]) thumbStepStarted"

definition thumbStepReset :: CalibrationModal where
  "thumbStepReset = resetStep (thumbStepSampled 1)"

section \<open>Motion-based swipe tracker (component LiveStreamDetector, function detectSwipeGesture)\<close>

text \<open>
  The \<open>ImageData\<close> read from the canvas: RGBA bytes, row by row. \<open>getImageData\<close>
  yields \<open>width \<ge> 1\<close> and \<open>4 * width * height\<close> bytes.
\<close>

record ImageData =
  width :: nat
  height :: nat
  data :: "8 word list"

definition wellFormed :: "ImageData \<Rightarrow> bool" where
  "wellFormed frame \<longleftrightarrow> 0 < width frame \<and> length (data frame) = 4 * width frame * height frame"

text \<open>
  The sampling loop \<open>for (let i = 0; i < frame.data.length; i += 4 * 40)\<close>, with the
  accumulators \<open>handXSum\<close> and \<open>count\<close>. A read past the end of the array gives
  \<open>undefined\<close>, the brightness is then \<open>NaN\<close> and the test fails.
\<close>

function scanPixels :: "ImageData \<Rightarrow> nat \<Rightarrow> nat \<Rightarrow> nat \<Rightarrow> nat \<times> nat" where
  "scanPixels frame i handXSum count =
     (if i < length (data frame) then
        (if i + 2 < length (data frame)
            \<and> real (unat (data frame ! i) + unat (data frame ! (i + 1)) + unat (data frame ! (i + 2))) / 3
                > 100
         then scanPixels frame (i + 4 * 40) (handXSum + (i div 4) mod width frame) (count + 1)
         else scanPixels frame (i + 4 * 40) handXSum count)
      else (handXSum, count))"
  by pat_completeness auto
termination
  by (relation "measure (\<lambda>(frame, i, handXSum, count). length (data frame) - i)") auto

declare scanPixels.simps [simp del]

text \<open>The refs \<open>lastXRef\<close> and \<open>gestureCooldownRef\<close>, with their initial values.\<close>

record SwipeState =
  lastX :: "real option"
  gestureCooldown :: int

definition initialSwipeState :: SwipeState where
  "initialSwipeState = \<lparr>lastX = None, gestureCooldown = 0\<rparr>"

datatype swipe = swipe_next | swipe_prev | swipe_none

definition detectSwipeGesture :: "SwipeState \<Rightarrow> ImageData \<Rightarrow> swipe \<times> SwipeState" where
  "detectSwipeGesture s frame =
     (case scanPixels frame 0 0 0 of
        (handXSum, count) \<Rightarrow>
          if count < 10 then (swipe_none, s)
          else
            let avgX = real handXSum / real count;
                last = lastX s;
                s1 = s\<lparr>lastX := Some avgX\<rparr>
            in
              if gestureCooldown s1 > 0
                then (swipe_none, s1\<lparr>gestureCooldown := gestureCooldown s1 - 1\<rparr>)
              else
                (case last of
                   Some l \<Rightarrow>
                     let delta = avgX - l
                     in if \<bar>delta\<bar> > 50
                        then (if delta > 0 then swipe_next else swipe_prev,
                              s1\<lparr>gestureCooldown := 20\<rparr>)
                        else (swipe_none, s1)
                 | None \<Rightarrow> (swipe_none, s1)))"

text \<open>\<open>processFrame\<close> calls the detector once per frame; the results, in order.\<close>

fun detectAll :: "SwipeState \<Rightarrow> ImageData list \<Rightarrow> swipe list" where
  "detectAll s [] = []"
| "detectAll s (frame # frames) =
     (case detectSwipeGesture s frame of (r, s') \<Rightarrow> r # detectAll s' frames)"

definition brightCount :: "ImageData \<Rightarrow> nat" where
  "brightCount frame = snd (scanPixels frame 0 0 0)"

definition centroid :: "ImageData \<Rightarrow> real" where
  "centroid frame = real (fst (scanPixels frame 0 0 0)) / real (snd (scanPixels frame 0 0 0))"

subsection \<open>Example frames\<close>

text \<open>
  One row of 800 pixels, sampled at the pixels 0, 40, ..., 760. In \<open>leftBright\<close> the left
  half is grey 200 and the right half black, in \<open>rightBright\<close> the other way round;
  \<open>darkFrame\<close> is black.
\<close>

definition leftBright :: ImageData where
  "leftBright = \<lparr>width = 800, height = 1, data = replicate 1600 200 @ replicate 1600 0\<rparr>"

definition rightBright :: ImageData where
  "rightBright = \<lparr>width = 800, height = 1, data = replicate 1600 0 @ replicate 1600 200\<rparr>"

definition darkFrame :: ImageData where
  "darkFrame = \<lparr>width = 800, height = 1, data = replicate 3200 0\<rparr>"

section \<open>Properties of the temporal debouncer\<close>

text \<open>A call either changes nothing and emits nothing, or accepts the candidate.\<close>

lemma processGesture_cases:
  "processGesture opts s now g conf = (s, None) \<or>
   processGesture opts s now g conf
     = (\<lparr>lastGestureTime = now, lastGestureType = g\<rparr>, Some (g, conf))"
  by (simp add: processGesture_def)

lemma processGesture_accept_plain:
  "processGesture opts s now g conf = (s', Some out) \<Longrightarrow>
   debounceMs opts \<le> now - lastGestureTime s"
  by (auto simp: processGesture_def split: if_splits)

lemma processGesture_accept_same:
  "processGesture opts s now g conf = (s', Some out) \<Longrightarrow> g = lastGestureType s \<Longrightarrow>
   debounceMs opts * 1.5 \<le> now - lastGestureTime s"
  by (auto simp: processGesture_def split: if_splits)

lemma emitted_suppressed:
  "processGesture opts s (ev_timestamp c) (ev_type c) (ev_confidence c) = (s, None) \<Longrightarrow>
   emitted opts s (c # cs) = emitted opts s cs"
  by (simp add: emitted.simps)

lemma emitted_accepted:
  "processGesture opts s (ev_timestamp c) (ev_type c) (ev_confidence c)
     = (\<lparr>lastGestureTime = ev_timestamp c, lastGestureType = ev_type c\<rparr>,
        Some (ev_type c, ev_confidence c)) \<Longrightarrow>
   emitted opts s (c # cs)
     = c # emitted opts \<lparr>lastGestureTime = ev_timestamp c, lastGestureType = ev_type c\<rparr> cs"
  by (simp add: emitted.simps)

text \<open>Every emitted event lies at least one debounce interval after the last accepted one.\<close>

lemma emitted_after_last:
  assumes "0 \<le> debounceMs opts"
  shows "e \<in> set (emitted opts s cs) \<Longrightarrow> lastGestureTime s + debounceMs opts \<le> ev_timestamp e"
proof (induction cs arbitrary: s)
  case Nil
  then show ?case by simp
next
  case (Cons c cs)
  let ?call = "processGesture opts s (ev_timestamp c) (ev_type c) (ev_confidence c)"
  let ?s' = "\<lparr>lastGestureTime = ev_timestamp c, lastGestureType = ev_type c\<rparr>"
  from processGesture_cases[of opts s "ev_timestamp c" "ev_type c" "ev_confidence c"]
  show ?case
  proof
    assume "?call = (s, None)"
    with Cons show ?thesis by (simp only: emitted_suppressed)
  next
    assume acc: "?call = (?s', Some (ev_type c, ev_confidence c))"
    from processGesture_accept_plain[OF acc]
    have far: "debounceMs opts \<le> ev_timestamp c - lastGestureTime s" .
    from Cons.prems emitted_accepted[OF acc] have "e = c \<or> e \<in> set (emitted opts ?s' cs)"
      by simp
    then show ?thesis
    proof
      assume "e = c"
      with far show ?thesis by simp
    next
      assume "e \<in> set (emitted opts ?s' cs)"
      from Cons.IH[OF this] far assms show ?thesis by simp
    qed
  qed
qed

lemma emitted_spaced:
  assumes "0 \<le> debounceMs opts"
  shows "sorted_wrt (\<lambda>a b. debounceMs opts \<le> ev_timestamp b - ev_timestamp a) (emitted opts s cs)"
proof (induction cs arbitrary: s)
  case Nil
  then show ?case by simp
next
  case (Cons c cs)
  let ?call = "processGesture opts s (ev_timestamp c) (ev_type c) (ev_confidence c)"
  let ?s' = "\<lparr>lastGestureTime = ev_timestamp c, lastGestureType = ev_type c\<rparr>"
  from processGesture_cases[of opts s "ev_timestamp c" "ev_type c" "ev_confidence c"]
  show ?case
  proof
    assume "?call = (s, None)"
    with Cons show ?thesis by (simp only: emitted_suppressed)
  next
    assume acc: "?call = (?s', Some (ev_type c, ev_confidence c))"
    have "\<forall>e \<in> set (emitted opts ?s' cs). debounceMs opts \<le> ev_timestamp e - ev_timestamp c"
      using emitted_after_last[OF assms, of _ ?s' cs] by fastforce
    with Cons.IH[of ?s'] show ?thesis
      by (simp add: emitted_accepted[OF acc])
  qed
qed

text \<open>The first event emitted from a state, when of the state's last type.\<close>

lemma first_emitted_same_type:
  "emitted opts s cs = e # es \<Longrightarrow> ev_type e = lastGestureType s \<Longrightarrow>
   debounceMs opts * 1.5 \<le> ev_timestamp e - lastGestureTime s"
proof (induction cs arbitrary: s)
  case Nil
  then show ?case by simp
next
  case (Cons c cs)
  let ?call = "processGesture opts s (ev_timestamp c) (ev_type c) (ev_confidence c)"
  let ?s' = "\<lparr>lastGestureTime = ev_timestamp c, lastGestureType = ev_type c\<rparr>"
  from processGesture_cases[of opts s "ev_timestamp c" "ev_type c" "ev_confidence c"]
  show ?case
  proof
    assume "?call = (s, None)"
    with Cons show ?thesis by (simp only: emitted_suppressed)
  next
    assume acc: "?call = (?s', Some (ev_type c, ev_confidence c))"
    with Cons.prems(1) have "e = c" by (simp add: emitted_accepted[OF acc])
    with Cons.prems(2) processGesture_accept_same[OF acc] show ?thesis by simp
  qed
qed

lemma emitted_example:
  "emitted defaultOptions freshState
     [candidate SWIPE_LEFT 1 1000, candidate SWIPE_LEFT 1 1500, candidate OPEN_PALM 0.9 2000,
      candidate SWIPE_LEFT 1 3000, candidate SWIPE_LEFT 1 4100, candidate SWIPE_LEFT 1 4300]
   = [candidate SWIPE_LEFT 1 1000, candidate OPEN_PALM 0.9 2000, candidate SWIPE_LEFT 1 3000,
      candidate SWIPE_LEFT 1 4300]"
  by (simp add: emitted.simps defaultOptions_def freshState_def candidate_def processGesture_def)

text \<open>
  C1. Whatever candidates are fed to the debouncer, from whatever state, two emitted
  events of the same gesture type have timestamps at least \<open>debounceMs\<close> apart (the
  interval being a duration, \<open>0 \<le> debounceMs\<close>; 800 ms by default).
\<close>

theorem debounce_same_type_spacing:
  assumes "0 \<le> debounceMs opts"
    and "i < j" and "j < length (emitted opts s cs)"
    and "ev_type (emitted opts s cs ! i) = ev_type (emitted opts s cs ! j)"
  shows "debounceMs opts
           \<le> ev_timestamp (emitted opts s cs ! j) - ev_timestamp (emitted opts s cs ! i)"
  using sorted_wrt_nth_less[OF emitted_spaced[OF assms(1)] assms(2,3)] .

theorem debounce_same_type_spacing_witness:
  "0 \<le> debounceMs defaultOptions \<and> (0::nat) < 2
   \<and> 2 < length (emitted defaultOptions freshState
       [candidate SWIPE_LEFT 1 1000, candidate SWIPE_LEFT 1 1500, candidate OPEN_PALM 0.9 2000,
        candidate SWIPE_LEFT 1 3000, candidate SWIPE_LEFT 1 4100, candidate SWIPE_LEFT 1 4300])
   \<and> ev_type (emitted defaultOptions freshState
       [candidate SWIPE_LEFT 1 1000, candidate SWIPE_LEFT 1 1500, candidate OPEN_PALM 0.9 2000,
        candidate SWIPE_LEFT 1 3000, candidate SWIPE_LEFT 1 4100, candidate SWIPE_LEFT 1 4300] ! 0)
     = ev_type (emitted defaultOptions freshState
       [candidate SWIPE_LEFT 1 1000, candidate SWIPE_LEFT 1 1500, candidate OPEN_PALM 0.9 2000,
        candidate SWIPE_LEFT 1 3000, candidate SWIPE_LEFT 1 4100, candidate SWIPE_LEFT 1 4300] ! 2)
   \<and> debounceMs defaultOptions
       \<le> ev_timestamp (emitted defaultOptions freshState
       [candidate SWIPE_LEFT 1 1000, candidate SWIPE_LEFT 1 1500, candidate OPEN_PALM 0.9 2000,
        candidate SWIPE_LEFT 1 3000, candidate SWIPE_LEFT 1 4100, candidate SWIPE_LEFT 1 4300] ! 2)
         - ev_timestamp (emitted defaultOptions freshState
       [candidate SWIPE_LEFT 1 1000, candidate SWIPE_LEFT 1 1500, candidate OPEN_PALM 0.9 2000,
        candidate SWIPE_LEFT 1 3000, candidate SWIPE_LEFT 1 4100, candidate SWIPE_LEFT 1 4300] ! 0)"
proof -
  let ?cs = "[candidate SWIPE_LEFT 1 1000, candidate SWIPE_LEFT 1 1500, candidate OPEN_PALM 0.9 2000,
        candidate SWIPE_LEFT 1 3000, candidate SWIPE_LEFT 1 4100, candidate SWIPE_LEFT 1 4300]"
  have h1: "0 \<le> debounceMs defaultOptions" by (simp add: defaultOptions_def)
  have h2: "(0::nat) < 2" by simp
  have h3: "2 < length (emitted defaultOptions freshState ?cs)"
    by (simp add: emitted_example)
  have h4: "ev_type (emitted defaultOptions freshState ?cs ! 0)
            = ev_type (emitted defaultOptions freshState ?cs ! 2)"
    unfolding emitted_example by (simp add: candidate_def)
  from debounce_same_type_spacing[OF h1 h2 h3 h4] h1 h2 h3 h4 show ?thesis by blast
qed


text \<open>
  C2. Two consecutive emitted events of the same gesture type, nothing of another type
  being emitted between them (they are neighbours in the sequence of emitted events),
  have timestamps at least \<open>debounceMs * 1.5\<close> apart.
\<close>

theorem same_gesture_extended_spacing:
  assumes "Suc i < length (emitted opts s cs)"
    and "ev_type (emitted opts s cs ! i) = ev_type (emitted opts s cs ! Suc i)"
  shows "debounceMs opts * 1.5
           \<le> ev_timestamp (emitted opts s cs ! Suc i) - ev_timestamp (emitted opts s cs ! i)"
  using assms
proof (induction cs arbitrary: s i)
  case Nil
  then show ?case by simp
next
  case (Cons c cs)
  let ?call = "processGesture opts s (ev_timestamp c) (ev_type c) (ev_confidence c)"
  let ?s' = "\<lparr>lastGestureTime = ev_timestamp c, lastGestureType = ev_type c\<rparr>"
  from processGesture_cases[of opts s "ev_timestamp c" "ev_type c" "ev_confidence c"]
  show ?case
  proof
    assume "?call = (s, None)"
    with Cons show ?thesis by (simp only: emitted_suppressed)
  next
    assume acc: "?call = (?s', Some (ev_type c, ev_confidence c))"
    note em = emitted_accepted[OF acc, of cs]
    show ?thesis
    proof (cases i)
      case 0
      with Cons.prems em obtain e es where tl: "emitted opts ?s' cs = e # es"
        by (cases "emitted opts ?s' cs") auto
      with Cons.prems em 0 have "ev_type e = lastGestureType ?s'"
        by simp
      from first_emitted_same_type[OF tl this] em tl 0 show ?thesis
        by simp
    next
      case (Suc k)
      with Cons.prems em have "Suc k < length (emitted opts ?s' cs)"
        and "ev_type (emitted opts ?s' cs ! k) = ev_type (emitted opts ?s' cs ! Suc k)"
        by simp_all
      from Cons.IH[OF this] em Suc show ?thesis by simp
    qed
  qed
qed

theorem same_gesture_extended_spacing_witness:
  "Suc 2 < length (emitted defaultOptions freshState
       [candidate SWIPE_LEFT 1 1000, candidate SWIPE_LEFT 1 1500, candidate OPEN_PALM 0.9 2000,
        candidate SWIPE_LEFT 1 3000, candidate SWIPE_LEFT 1 4100, candidate SWIPE_LEFT 1 4300])
   \<and> ev_type (emitted defaultOptions freshState
       [candidate SWIPE_LEFT 1 1000, candidate SWIPE_LEFT 1 1500, candidate OPEN_PALM 0.9 2000,
        candidate SWIPE_LEFT 1 3000, candidate SWIPE_LEFT 1 4100, candidate SWIPE_LEFT 1 4300] ! 2)
     = ev_type (emitted defaultOptions freshState
       [candidate SWIPE_LEFT 1 1000, candidate SWIPE_LEFT 1 1500, candidate OPEN_PALM 0.9 2000,
        candidate SWIPE_LEFT 1 3000, candidate SWIPE_LEFT 1 4100, candidate SWIPE_LEFT 1 4300] ! Suc 2)
   \<and> debounceMs defaultOptions * 1.5
       \<le> ev_timestamp (emitted defaultOptions freshState
       [candidate SWIPE_LEFT 1 1000, candidate SWIPE_LEFT 1 1500, candidate OPEN_PALM 0.9 2000,
        candidate SWIPE_LEFT 1 3000, candidate SWIPE_LEFT 1 4100, candidate SWIPE_LEFT 1 4300] ! Suc 2)
         - ev_timestamp (emitted defaultOptions freshState
       [candidate SWIPE_LEFT 1 1000, candidate SWIPE_LEFT 1 1500, candidate OPEN_PALM 0.9 2000,
        candidate SWIPE_LEFT 1 3000, candidate SWIPE_LEFT 1 4100, candidate SWIPE_LEFT 1 4300] ! 2)"
proof -
  let ?cs = "[candidate SWIPE_LEFT 1 1000, candidate SWIPE_LEFT 1 1500, candidate OPEN_PALM 0.9 2000,
        candidate SWIPE_LEFT 1 3000, candidate SWIPE_LEFT 1 4100, candidate SWIPE_LEFT 1 4300]"
  have h1: "Suc 2 < length (emitted defaultOptions freshState ?cs)"
    by (simp add: emitted_example)
  have h2: "ev_type (emitted defaultOptions freshState ?cs ! 2)
            = ev_type (emitted defaultOptions freshState ?cs ! Suc 2)"
    unfolding emitted_example by (simp add: candidate_def)
  from same_gesture_extended_spacing[OF h1 h2] h1 h2 show ?thesis by blast
qed

text \<open>
  C3 (the code departs from the claim). \<open>processGesture\<close> reads neither
  \<open>confidenceThreshold\<close> nor whether the label is \<open>null\<close>: with the default options
  (threshold 0.7) a candidate of confidence 0.5 is emitted and recorded as the last
  gesture, and so is a \<open>null\<close> candidate.
\<close>

theorem low_confidence_and_null_accepted:
  "processGesture defaultOptions freshState 10000 (Some THUMB_UP) 0.5
     = (\<lparr>lastGestureTime = 10000, lastGestureType = Some THUMB_UP\<rparr>, Some (Some THUMB_UP, 0.5))
   \<and> 0.5 < confidenceThreshold defaultOptions
   \<and> processGesture defaultOptions freshState 10000 None 0.9
     = (\<lparr>lastGestureTime = 10000, lastGestureType = None\<rparr>, Some (None, 0.9))"
  by (simp add: processGesture_def defaultOptions_def freshState_def)

text \<open>
  C4, as stated, fails on the code. Read on the clock of a fresh debouncer
  (\<open>lastGestureTime = 0\<close>) the candidate at \<open>t = 0\<close> is itself inside the window; after an
  emission at \<open>t = 0\<close> the same gesture at \<open>t = 1300\<close> is emitted, 1300 ms being outside
  the extended window of 1200 ms; and after an \<open>OPEN_PALM\<close> emitted at \<open>t = 900\<close> the
  candidate at \<open>t = 1300\<close> is suppressed, 400 ms being inside the plain window.
\<close>

theorem debounce_scenario_counterexample:
  "emitted defaultOptions freshState [candidate SWIPE_LEFT 1 0] = []
   \<and> processGesture defaultOptions \<lparr>lastGestureTime = 0, lastGestureType = Some SWIPE_LEFT\<rparr>
         1300 (Some SWIPE_LEFT) 1
       = (\<lparr>lastGestureTime = 1300, lastGestureType = Some SWIPE_LEFT\<rparr>, Some (Some SWIPE_LEFT, 1))
   \<and> processGesture defaultOptions \<lparr>lastGestureTime = 900, lastGestureType = Some OPEN_PALM\<rparr>
         1300 (Some SWIPE_LEFT) 1
       = (\<lparr>lastGestureTime = 900, lastGestureType = Some OPEN_PALM\<rparr>, None)"
  by (simp add: emitted.simps processGesture_def defaultOptions_def freshState_def candidate_def)

text \<open>
  C4, amended. With \<open>debounceMs = 800\<close> and a fresh debouncer, let the first candidate
  arrive at a clock reading \<open>T \<ge> 800\<close> (\<open>Date.now()\<close> always is). \<open>(SWIPE_LEFT, 1.0)\<close> at
  \<open>T\<close> is emitted; at \<open>T + 500\<close> it is suppressed; with \<open>T\<close> the only prior emission it is
  emitted at \<open>T + 1300\<close>; and when an \<open>OPEN_PALM\<close> was emitted at \<open>T + 900\<close> it is
  suppressed at \<open>T + 1300\<close>.
\<close>

theorem debounce_scenario_amended:
  assumes "800 \<le> T"
  shows "emitted defaultOptions freshState [candidate SWIPE_LEFT 1 T] = [candidate SWIPE_LEFT 1 T]
    \<and> emitted defaultOptions freshState [candidate SWIPE_LEFT 1 T, candidate SWIPE_LEFT 1 (T + 500)]
        = [candidate SWIPE_LEFT 1 T]
    \<and> emitted defaultOptions freshState [candidate SWIPE_LEFT 1 T, candidate SWIPE_LEFT 1 (T + 1300)]
        = [candidate SWIPE_LEFT 1 T, candidate SWIPE_LEFT 1 (T + 1300)]
    \<and> emitted defaultOptions freshState
          [candidate SWIPE_LEFT 1 T, candidate OPEN_PALM 1 (T + 900), candidate SWIPE_LEFT 1 (T + 1300)]
        = [candidate SWIPE_LEFT 1 T, candidate OPEN_PALM 1 (T + 900)]"
  using assms
  by (simp add: emitted.simps processGesture_def defaultOptions_def freshState_def candidate_def)

theorem debounce_scenario_amended_witness:
  "(800::real) \<le> 1000
    \<and> emitted defaultOptions freshState [candidate SWIPE_LEFT 1 1000] = [candidate SWIPE_LEFT 1 1000]
    \<and> emitted defaultOptions freshState [candidate SWIPE_LEFT 1 1000, candidate SWIPE_LEFT 1 1500]
        = [candidate SWIPE_LEFT 1 1000]
    \<and> emitted defaultOptions freshState [candidate SWIPE_LEFT 1 1000, candidate SWIPE_LEFT 1 2300]
        = [candidate SWIPE_LEFT 1 1000, candidate SWIPE_LEFT 1 2300]
    \<and> emitted defaultOptions freshState
          [candidate SWIPE_LEFT 1 1000, candidate OPEN_PALM 1 1900, candidate SWIPE_LEFT 1 2300]
        = [candidate SWIPE_LEFT 1 1000, candidate OPEN_PALM 1 1900]"
proof -
  have h: "(800::real) \<le> 1000" by simp
  from debounce_scenario_amended[OF h] h show ?thesis by simp
qed

text \<open>
  C10. Two emitted events, of whatever gesture types, have timestamps at least
  \<open>debounceMs\<close> apart (\<open>0 \<le> debounceMs\<close>): the plain window is tested against the single
  \<open>lastGestureTime\<close>, and a candidate inside it is suppressed whatever its type.
\<close>

theorem debounce_any_type_spacing:
  "(0 \<le> debounceMs opts \<and> i < j \<and> j < length (emitted opts s cs)
      \<longrightarrow> debounceMs opts
            \<le> ev_timestamp (emitted opts s cs ! j) - ev_timestamp (emitted opts s cs ! i))
   \<and> (now - lastGestureTime s' < debounceMs opts
      \<longrightarrow> processGesture opts s' now g conf = (s', None))"
proof (intro conjI impI)
  assume "0 \<le> debounceMs opts \<and> i < j \<and> j < length (emitted opts s cs)"
  then have a: "0 \<le> debounceMs opts" and b: "i < j" and c: "j < length (emitted opts s cs)"
    by simp_all
  from sorted_wrt_nth_less[OF emitted_spaced[OF a] b c]
  show "debounceMs opts
          \<le> ev_timestamp (emitted opts s cs ! j) - ev_timestamp (emitted opts s cs ! i)" .
next
  assume "now - lastGestureTime s' < debounceMs opts"
  then show "processGesture opts s' now g conf = (s', None)"
    by (simp add: processGesture_def)
qed

theorem debounce_any_type_spacing_witness:
  "(0 \<le> debounceMs defaultOptions \<and> (0::nat) < 1
      \<and> 1 < length (emitted defaultOptions freshState
       [candidate SWIPE_LEFT 1 1000, candidate SWIPE_LEFT 1 1500, candidate OPEN_PALM 0.9 2000,
        candidate SWIPE_LEFT 1 3000, candidate SWIPE_LEFT 1 4100, candidate SWIPE_LEFT 1 4300]))
   \<and> debounceMs defaultOptions
       \<le> ev_timestamp (emitted defaultOptions freshState
       [candidate SWIPE_LEFT 1 1000, candidate SWIPE_LEFT 1 1500, candidate OPEN_PALM 0.9 2000,
        candidate SWIPE_LEFT 1 3000, candidate SWIPE_LEFT 1 4100, candidate SWIPE_LEFT 1 4300] ! 1)
         - ev_timestamp (emitted defaultOptions freshState
       [candidate SWIPE_LEFT 1 1000, candidate SWIPE_LEFT 1 1500, candidate OPEN_PALM 0.9 2000,
        candidate SWIPE_LEFT 1 3000, candidate SWIPE_LEFT 1 4100, candidate SWIPE_LEFT 1 4300] ! 0)
   \<and> 1500 - lastGestureTime \<lparr>lastGestureTime = 1000, lastGestureType = Some SWIPE_LEFT\<rparr>
       < debounceMs defaultOptions
   \<and> processGesture defaultOptions \<lparr>lastGestureTime = 1000, lastGestureType = Some SWIPE_LEFT\<rparr>
         1500 (Some OPEN_PALM) 0.9
       = (\<lparr>lastGestureTime = 1000, lastGestureType = Some SWIPE_LEFT\<rparr>, None)"
proof -
  let ?cs = "[candidate SWIPE_LEFT 1 1000, candidate SWIPE_LEFT 1 1500, candidate OPEN_PALM 0.9 2000,
        candidate SWIPE_LEFT 1 3000, candidate SWIPE_LEFT 1 4100, candidate SWIPE_LEFT 1 4300]"
  let ?s = "\<lparr>lastGestureTime = 1000, lastGestureType = Some SWIPE_LEFT\<rparr>"
  have h1: "0 \<le> debounceMs defaultOptions \<and> (0::nat) < 1
      \<and> 1 < length (emitted defaultOptions freshState ?cs)"
    unfolding emitted_example by (simp add: defaultOptions_def)
  have h2: "1500 - lastGestureTime ?s < debounceMs defaultOptions"
    by (simp add: defaultOptions_def)
  from debounce_any_type_spacing[of defaultOptions 0 1 freshState ?cs 1500 ?s "Some OPEN_PALM" "0.9"]
    h1 h2 show ?thesis by blast
qed

section \<open>Properties of the classifier and of the calibration collector\<close>

lemma length_poseHand: "length (poseHand w t f p) = 21"
  by (simp add: poseHand_def)

lemma poseHand_y:
  "y (poseHand w t f p ! 0) = w"
  "y (poseHand w t f p ! 4) = t"
  "y (poseHand w t f p ! 8) = f"
  "y (poseHand w t f p ! 12) = f"
  "y (poseHand w t f p ! 16) = f"
  "y (poseHand w t f p ! 20) = f"
  "y (poseHand w t f p ! 6) = p"
  "y (poseHand w t f p ! 10) = p"
  "y (poseHand w t f p ! 14) = p"
  "y (poseHand w t f p ! 18) = p"
  by (simp_all add: poseHand_def)

text \<open>One frame with a full hand, while collecting: what the effect writes.\<close>

lemma onHandLandmarks_sample:
  assumes "isCollecting m" and "currentGesture m = Some g" and "21 \<le> length h"
  shows "heap (onHandLandmarks (Some (h # hs)) m) = addSample g h (calibrationData m) (heap m)"
    and "samplesCollected (onHandLandmarks (Some (h # hs)) m) = samplesCollected m + 1"
    and "isCollecting (onHandLandmarks (Some (h # hs)) m) \<longleftrightarrow> samplesCollected m + 1 < samplesNeeded"
    and "detectionStatus (onHandLandmarks (Some (h # hs)) m)
          = (if samplesNeeded \<le> samplesCollected m + 1 then success else detectionStatus m)"
  using assms by (auto simp: onHandLandmarks_def Let_def stopCollecting_def)

lemma onHandLandmarks_keeps:
  "calibrationData (onHandLandmarks hl m) = calibrationData m"
  "currentStep (onHandLandmarks hl m) = currentStep m"
  by (auto simp: onHandLandmarks_def Let_def stopCollecting_def split: option.splits list.splits)

lemma currentGesture_onHandLandmarks:
  "currentGesture (onHandLandmarks hl m) = currentGesture m"
  by (simp add: currentGesture_def onHandLandmarks_keeps)

lemma addSample_other: "a \<noteq> cd g \<Longrightarrow> addSample g h cd st a = st a"
  by (cases g) (auto simp: Let_def split: option.splits stepData.splits)

lemma onHandLandmarks_other:
  assumes "currentGesture m = Some g" and "a \<noteq> calibrationData m g"
  shows "heap (onHandLandmarks hl m) a = heap m a"
  using assms
  by (auto simp: onHandLandmarks_def Let_def stopCollecting_def addSample_other
           split: option.splits list.splits)

lemma feedFrames_keeps:
  "calibrationData (feedFrames n hl m) = calibrationData m"
  "currentStep (feedFrames n hl m) = currentStep m"
  "currentGesture (feedFrames n hl m) = currentGesture m"
  by (induction n) (simp_all add: feedFrames.simps onHandLandmarks_keeps currentGesture_onHandLandmarks)

lemma feedFrames_other:
  assumes "currentGesture m = Some g" and "a \<noteq> calibrationData m g"
  shows "heap (feedFrames n hl m) a = heap m a"
proof (induction n)
  case 0
  show ?case by (simp add: feedFrames.simps)
next
  case (Suc n)
  have "heap (onHandLandmarks hl (feedFrames n hl m)) a = heap (feedFrames n hl m) a"
    using assms by (intro onHandLandmarks_other[where g = g]) (simp_all add: feedFrames_keeps)
  with Suc show ?case by (simp add: feedFrames.simps)
qed

text \<open>Folding a value into an average that is \<open>n / (n + 1)\<close> of that value.\<close>

lemma foldAverage_identical:
  "foldAverage (real n * v / (real n + 1)) (Suc n) v = real (Suc n) * v / (real (Suc n) + 1)"
proof -
  have nz: "real n + 1 \<noteq> 0"
    using of_nat_0_le_iff[of n, where ?'a = real] by linarith
  then have "real n * v / (real n + 1) * (real n + 1) = real n * v"
    by simp
  then have "real n * v / (real n + 1) * real (Suc n) + v = real (Suc n) * v"
    by (simp add: algebra_simps)
  then show ?thesis
    by (simp only: foldAverage_def)
qed

text \<open>
  \<open>n\<close> identical samples on the thumb step, started on a step object that is still
  empty: the stored averages are \<open>n / (n + 1)\<close> of the sample's values.
\<close>

lemma thumbUp_identical_samples:
  assumes start: "stepOf m thumbUp = Some (ThumbUpData [] 0 0 0)"
      "isCollecting m" "samplesCollected m = 0" "currentGesture m = Some thumbUp"
    and h: "21 \<le> length h"
  shows "n \<le> samplesNeeded \<Longrightarrow>
     stepOf (feedFrames n (Some [h]) m) thumbUp
       = Some (ThumbUpData (replicate n h)
                 (real n * (y (h ! 0) - y (h ! 4)) / (real n + 1))
                 (real n * y (h ! 4) / (real n + 1))
                 (real n * y (h ! 0) / (real n + 1)))
     \<and> samplesCollected (feedFrames n (Some [h]) m) = n
     \<and> (isCollecting (feedFrames n (Some [h]) m) \<longleftrightarrow> n < samplesNeeded)"
proof (induction n)
  case 0
  with start show ?case by (simp add: samplesNeeded_def feedFrames.simps)
next
  case (Suc n)
  let ?m = "feedFrames n (Some [h]) m"
  from Suc have IH: "stepOf ?m thumbUp
       = Some (ThumbUpData (replicate n h)
                 (real n * (y (h ! 0) - y (h ! 4)) / (real n + 1))
                 (real n * y (h ! 4) / (real n + 1))
                 (real n * y (h ! 0) / (real n + 1)))"
    and cnt: "samplesCollected ?m = n" and col: "isCollecting ?m"
    by simp_all
  have g: "currentGesture ?m = Some thumbUp"
    by (simp add: feedFrames_keeps start)
  note step = onHandLandmarks_sample[OF col g h, of "[]"]
  have "stepOf (onHandLandmarks (Some [h]) ?m) thumbUp
      = addSample thumbUp h (calibrationData ?m) (heap ?m) (calibrationData ?m thumbUp)"
    by (simp add: stepOf_def step(1) onHandLandmarks_keeps)
  also have "\<dots> = Some (ThumbUpData (replicate (Suc n) h)
                 (real (Suc n) * (y (h ! 0) - y (h ! 4)) / (real (Suc n) + 1))
                 (real (Suc n) * y (h ! 4) / (real (Suc n) + 1))
                 (real (Suc n) * y (h ! 0) / (real (Suc n) + 1)))"
    using IH
    by (simp add: stepOf_def Let_def foldAverage_identical replicate_append_same
             del: of_nat_Suc)
  finally have obj: "stepOf (feedFrames (Suc n) (Some [h]) m) thumbUp
      = Some (ThumbUpData (replicate (Suc n) h)
                 (real (Suc n) * (y (h ! 0) - y (h ! 4)) / (real (Suc n) + 1))
                 (real (Suc n) * y (h ! 4) / (real (Suc n) + 1))
                 (real (Suc n) * y (h ! 0) / (real (Suc n) + 1)))"
    by (simp add: feedFrames.simps)
  from step(2,3) cnt Suc.prems
  have "samplesCollected (feedFrames (Suc n) (Some [h]) m) = Suc n"
    and "isCollecting (feedFrames (Suc n) (Some [h]) m) \<longleftrightarrow> Suc n < samplesNeeded"
    by (simp_all add: feedFrames.simps)
  with obj show ?case by simp
qed


lemma thumbStepStarted_facts:
  "stepOf thumbStepStarted thumbUp = Some (ThumbUpData [] 0 0 0)"
  "isCollecting thumbStepStarted"
  "samplesCollected thumbStepStarted = 0"
  "currentGesture thumbStepStarted = Some thumbUp"
  "calibrationData thumbStepStarted = EMPTY_CALIBRATION_DATA"
  by (simp_all add: thumbStepStarted_def startCollecting_def nextStep_def stopCollecting_def
        initialModal_def moduleStore_def currentGesture_def CALIBRATION_STEPS_def stepOf_def)

lemma thumbHand_facts:
  "21 \<le> length thumbHand" "y (thumbHand ! 0) = 0.8" "y (thumbHand ! 4) = 0.4"
  by (simp_all add: thumbHand_def length_poseHand poseHand_y)

lemma thumbStepSampled_facts:
  assumes "n \<le> 10"
  shows "stepOf (thumbStepSampled n) thumbUp
           = Some (ThumbUpData (replicate n thumbHand)
                     (real n * 0.4 / (real n + 1)) (real n * 0.4 / (real n + 1))
                     (real n * 0.8 / (real n + 1)))"
    and "calibrationData (thumbStepSampled n) = EMPTY_CALIBRATION_DATA"
proof -
  from assms have "n \<le> samplesNeeded" by (simp add: samplesNeeded_def)
  from thumbUp_identical_samples[OF thumbStepStarted_facts(1-4) thumbHand_facts(1) this]
  show "stepOf (thumbStepSampled n) thumbUp
           = Some (ThumbUpData (replicate n thumbHand)
                     (real n * 0.4 / (real n + 1)) (real n * 0.4 / (real n + 1))
                     (real n * 0.8 / (real n + 1)))"
    by (simp add: thumbStepSampled_def thumbHand_facts)
  show "calibrationData (thumbStepSampled n) = EMPTY_CALIBRATION_DATA"
    by (simp add: thumbStepSampled_def feedFrames_keeps thumbStepStarted_facts)
qed

text \<open>
  C5 (the code departs from the claim). Each branch of the updater pushes the sample and
  only then reads \<open>samples.length\<close>, so a sample is folded in as
  \<open>(oldAvg * (n + 1) + sample) / (n + 2)\<close>. On a fresh thumb step, samples of thumb
  extension 0.4 leave the average at 0.2 after one sample and at 4/15 after two, not
  at 0.4.
\<close>

theorem running_average_counts_pushed_sample:
  "y (thumbHand ! 0) - y (thumbHand ! 4) = 0.4
   \<and> stepOf (thumbStepSampled 0) thumbUp = Some (ThumbUpData [] 0 0 0)
   \<and> stepOf (thumbStepSampled 1) thumbUp = Some (ThumbUpData [thumbHand] 0.2 0.2 0.4)
   \<and> stepOf (thumbStepSampled 2) thumbUp
       = Some (ThumbUpData [thumbHand, thumbHand] (4 / 15) (4 / 15) (8 / 15))"
proof -
  have "stepOf (thumbStepSampled 0) thumbUp = Some (ThumbUpData [] 0 0 0)"
    using thumbStepSampled_facts(1)[of 0] by simp
  moreover have "stepOf (thumbStepSampled 1) thumbUp = Some (ThumbUpData [thumbHand] 0.2 0.2 0.4)"
    using thumbStepSampled_facts(1)[of 1] by simp
  moreover have "stepOf (thumbStepSampled 2) thumbUp
       = Some (ThumbUpData [thumbHand, thumbHand] (4 / 15) (4 / 15) (8 / 15))"
    using thumbStepSampled_facts(1)[of 2] by (simp add: numeral_2_eq_2)
  ultimately show ?thesis
    by (simp add: thumbHand_facts)
qed

text \<open>
  Reset writes no object: it stores a reference of \<open>EMPTY_CALIBRATION_DATA\<close> in
  the state, and the state of the component holds no other references.
\<close>

lemma resetStep_heap: "heap (resetStep m) = heap m"
  by (simp add: resetStep_def stopCollecting_def Let_def split: option.splits)

lemma resetStep_calibrationData:
  "calibrationData m = EMPTY_CALIBRATION_DATA \<Longrightarrow> calibrationData (resetStep m) = EMPTY_CALIBRATION_DATA"
  by (simp add: resetStep_def stopCollecting_def Let_def split: option.splits)

lemma resetStep_idle:
  "detectionStatus (resetStep m) = waiting" "\<not> isCollecting (resetStep m)"
  "samplesCollected (resetStep m) = 0" "\<not> collectionTimer (resetStep m)"
  by (simp_all add: resetStep_def stopCollecting_def Let_def split: option.splits)

text \<open>
  C6 (the code departs from the claim). The state starts as \<open>EMPTY_CALIBRATION_DATA\<close>
  itself and the updater writes through the copied references, so the object that Reset
  puts back is the one that holds the samples. After one sample on the thumb step, Reset
  returns the step to waiting with a count of 0, and the step's object still holds the
  sample and its averages.
\<close>

theorem reset_keeps_collected_samples:
  "stepOf thumbStepReset thumbUp = Some (ThumbUpData [thumbHand] 0.2 0.2 0.4)
   \<and> calibrationData thumbStepReset thumbUp = EMPTY_CALIBRATION_DATA thumbUp
   \<and> heap thumbStepReset (EMPTY_CALIBRATION_DATA thumbUp)
       \<noteq> moduleStore (EMPTY_CALIBRATION_DATA thumbUp)
   \<and> detectionStatus thumbStepReset = waiting
   \<and> \<not> isCollecting thumbStepReset
   \<and> samplesCollected thumbStepReset = 0"
proof -
  have cd: "calibrationData (thumbStepSampled 1) = EMPTY_CALIBRATION_DATA"
    by (rule thumbStepSampled_facts(2)) simp
  have obj: "stepOf (thumbStepSampled 1) thumbUp = Some (ThumbUpData [thumbHand] 0.2 0.2 0.4)"
    using thumbStepSampled_facts(1)[of 1] by simp
  have cd': "calibrationData thumbStepReset = EMPTY_CALIBRATION_DATA"
    unfolding thumbStepReset_def by (rule resetStep_calibrationData[OF cd])
  have "stepOf thumbStepReset thumbUp = stepOf (thumbStepSampled 1) thumbUp"
    unfolding stepOf_def cd cd' unfolding thumbStepReset_def resetStep_heap ..
  with obj have obj': "stepOf thumbStepReset thumbUp = Some (ThumbUpData [thumbHand] 0.2 0.2 0.4)"
    by simp
  then have "heap thumbStepReset (EMPTY_CALIBRATION_DATA thumbUp)
      \<noteq> moduleStore (EMPTY_CALIBRATION_DATA thumbUp)"
    by (simp add: stepOf_def cd' moduleStore_def)
  with obj' cd' show ?thesis
    by (simp add: thumbStepReset_def resetStep_idle)
qed

text \<open>
  C7, as stated, fails on the code: \<open>fistHand\<close> has all four curls (fingertip below its
  middle joint) at 0.3, none of the three rules of \<open>detectGesture\<close> matches it, and the
  result is \<open>null\<close>.
\<close>

theorem closed_fist_counterexample:
  "y (fistHand ! 8) - y (fistHand ! 6) = 0.3
   \<and> y (fistHand ! 12) - y (fistHand ! 10) = 0.3
   \<and> y (fistHand ! 16) - y (fistHand ! 14) = 0.3
   \<and> y (fistHand ! 20) - y (fistHand ! 18) = 0.3
   \<and> detectGesture fistHand = None"
  by (simp add: fistHand_def detectGesture_def poseHand_y length_poseHand)

text \<open>
  C7, amended. \<open>detectGesture\<close> has no closed-fist rule: for every hand its result is
  \<open>thumbs_up\<close>, \<open>pointing\<close>, \<open>open_palm\<close> or \<open>null\<close>, so a hand that matches none of
  the three poses is classified \<open>null\<close> whatever its curl values are.
\<close>

theorem detectGesture_labels:
  "detectGesture h = None \<or> detectGesture h = Some ''thumbs_up''
   \<or> detectGesture h = Some ''pointing'' \<or> detectGesture h = Some ''open_palm''"
  by (simp add: detectGesture_def Let_def)


text \<open>Start and Next write neither the store nor the references.\<close>

lemma startCollecting_keeps:
  "heap (startCollecting m) = heap m"
  "calibrationData (startCollecting m) = calibrationData m"
  "currentStep (startCollecting m) = currentStep m"
  "currentGesture (startCollecting m) = currentGesture m"
  "isCollecting (startCollecting m)"
  "samplesCollected (startCollecting m) = 0"
  by (simp_all add: startCollecting_def currentGesture_def)

lemma nextStep_keeps:
  "heap (fst (nextStep m)) = heap m"
  "calibrationData (fst (nextStep m)) = calibrationData m"
  by (simp_all add: nextStep_def stopCollecting_def)

lemma nextStep_advances:
  "currentStep m < 6 \<Longrightarrow> currentStep (fst (nextStep m)) = currentStep m + 1"
  by (simp add: nextStep_def stopCollecting_def CALIBRATION_STEPS_def)

lemma calibrateStep_keeps:
  "calibrationData (calibrateStep h m) = calibrationData m"
  "currentStep m < 6 \<Longrightarrow> currentStep (calibrateStep h m) = currentStep m + 1"
  by (simp_all add: calibrateStep_def nextStep_keeps nextStep_advances feedFrames_keeps
        startCollecting_keeps)

lemma calibrateStep_other:
  assumes "currentGesture m = Some g" and "a \<noteq> calibrationData m g"
  shows "heap (calibrateStep h m) a = heap m a"
proof -
  have "heap (feedFrames samplesNeeded (Some [h]) (startCollecting m)) a
          = heap (startCollecting m) a"
    using assms by (intro feedFrames_other[where g = g]) (simp_all add: startCollecting_keeps)
  then show ?thesis
    by (simp add: calibrateStep_def nextStep_keeps startCollecting_keeps)
qed

lemma steadyHand_facts:
  "21 \<le> length steadyHand" "y (steadyHand ! 0) = 0.8" "y (steadyHand ! 4) = 0.25"
  by (simp_all add: steadyHand_def length_poseHand poseHand_y)

text \<open>The session \<open>calibratedModal\<close>: it ends on the last step, the thumb average at 0.5.\<close>

lemma calibratedModal_facts:
  "currentStep calibratedModal = 6"
  "map_option thumbExtension (stepOf calibratedModal thumbUp) = Some 0.5"
proof -
  define m0 where "m0 = fst (nextStep initialModal)"
  define m1 where "m1 = calibrateStep steadyHand m0"
  define m2 where "m2 = calibrateStep steadyHand m1"
  define m3 where "m3 = calibrateStep steadyHand m2"
  define m4 where "m4 = calibrateStep steadyHand m3"
  define m5 where "m5 = calibrateStep steadyHand m4"
  have m5: "calibratedModal = m5"
    by (simp add: calibratedModal_def m5_def m4_def m3_def m2_def m1_def m0_def)
  have s0: "currentStep m0 = 1" and c0: "calibrationData m0 = EMPTY_CALIBRATION_DATA"
    and h0: "heap m0 = moduleStore"
    by (simp_all add: m0_def nextStep_def stopCollecting_def initialModal_def CALIBRATION_STEPS_def)
  have s1: "currentStep m1 = 2" and c1: "calibrationData m1 = EMPTY_CALIBRATION_DATA"
    by (simp_all add: m1_def calibrateStep_keeps s0 c0)
  have s2: "currentStep m2 = 3" and c2: "calibrationData m2 = EMPTY_CALIBRATION_DATA"
    by (simp_all add: m2_def calibrateStep_keeps s1 c1)
  have s3: "currentStep m3 = 4" and c3: "calibrationData m3 = EMPTY_CALIBRATION_DATA"
    by (simp_all add: m3_def calibrateStep_keeps s2 c2)
  have s4: "currentStep m4 = 5" and c4: "calibrationData m4 = EMPTY_CALIBRATION_DATA"
    by (simp_all add: m4_def calibrateStep_keeps s3 c3)
  have s5: "currentStep m5 = 6" and c5: "calibrationData m5 = EMPTY_CALIBRATION_DATA"
    by (simp_all add: m5_def calibrateStep_keeps s4 c4)
  have g0: "currentGesture m0 = Some thumbUp" and g1: "currentGesture m1 = Some pinkyUp"
    and g2: "currentGesture m2 = Some openPalm" and g3: "currentGesture m3 = Some closedFist"
    and g4: "currentGesture m4 = Some pointing"
    by (simp_all add: currentGesture_def CALIBRATION_STEPS_def s0 s1 s2 s3 s4)
  let ?started = "startCollecting m0"
  have "stepOf ?started thumbUp = Some (ThumbUpData [] 0 0 0)"
    by (simp add: stepOf_def startCollecting_keeps c0 h0 moduleStore_def)
  from thumbUp_identical_samples[OF this startCollecting_keeps(5) startCollecting_keeps(6) _
      steadyHand_facts(1), of samplesNeeded]
  have "stepOf (feedFrames samplesNeeded (Some [steadyHand]) ?started) thumbUp
      = Some (ThumbUpData (replicate 10 steadyHand) 0.5 (5 / 22) (8 / 11))"
    by (simp add: startCollecting_keeps g0 steadyHand_facts samplesNeeded_def)
  then have t1: "heap m1 0 = Some (ThumbUpData (replicate 10 steadyHand) 0.5 (5 / 22) (8 / 11))"
    by (simp add: stepOf_def m1_def calibrateStep_def nextStep_keeps feedFrames_keeps
          startCollecting_keeps c0)
  have "heap m2 0 = heap m1 0"
    unfolding m2_def by (rule calibrateStep_other[OF g1]) (simp add: c1)
  moreover have "heap m3 0 = heap m2 0"
    unfolding m3_def by (rule calibrateStep_other[OF g2]) (simp add: c2)
  moreover have "heap m4 0 = heap m3 0"
    unfolding m4_def by (rule calibrateStep_other[OF g3]) (simp add: c3)
  moreover have "heap m5 0 = heap m4 0"
    unfolding m5_def by (rule calibrateStep_other[OF g4]) (simp add: c4)
  ultimately have "heap m5 0 = Some (ThumbUpData (replicate 10 steadyHand) 0.5 (5 / 22) (8 / 11))"
    using t1 by simp
  then show "map_option thumbExtension (stepOf calibratedModal thumbUp) = Some 0.5"
    by (simp add: m5 stepOf_def c5)
  show "currentStep calibratedModal = 6"
    by (simp add: m5 s5)
qed

text \<open>
  C8, as stated, fails on the code. After the session \<open>calibratedModal\<close>, Next on the
  last step passes the data to \<open>onCalibrationComplete\<close>, with a thumb extension that
  averages 0.5; \<open>detectGesture\<close> has no access to it, and a hand whose thumb extension
  is 0.11 is still a thumbs-up, by the constant 0.1.
\<close>

theorem calibration_unused_counterexample:
  "currentStep calibratedModal = length CALIBRATION_STEPS - 1
   \<and> nextStep calibratedModal
       = (calibratedModal, [onCalibrationComplete (calibrationData calibratedModal), onClose])
   \<and> map_option thumbExtension (stepOf calibratedModal thumbUp) = Some 0.5
   \<and> y (faintThumbHand ! 0) - y (faintThumbHand ! 4) = 0.11
   \<and> detectGesture faintThumbHand = Some ''thumbs_up''"
proof -
  have "nextStep calibratedModal
       = (calibratedModal, [onCalibrationComplete (calibrationData calibratedModal), onClose])"
    by (simp add: nextStep_def calibratedModal_facts(1) CALIBRATION_STEPS_def)
  moreover have "y (faintThumbHand ! 0) - y (faintThumbHand ! 4) = 0.11"
    and "detectGesture faintThumbHand = Some ''thumbs_up''"
    by (simp_all add: faintThumbHand_def detectGesture_def poseHand_y length_poseHand)
  ultimately show ?thesis
    by (simp add: calibratedModal_facts CALIBRATION_STEPS_def)
qed

text \<open>
  C8, amended. Next on the last calibration step passes the \<open>CalibrationData\<close> to the
  callback \<open>onCalibrationComplete\<close> and closes the dialog, the state unchanged. The
  classifier \<open>detectGesture\<close> takes the landmarks alone and tests them against fixed
  constants, calibrated or not: 0.1 above the wrist for the thumb, 0.05 for the index
  finger, the wrist line for the open palm.
\<close>

theorem finish_hands_over_and_classifier_constant:
  "(currentStep m = length CALIBRATION_STEPS - 1
      \<longrightarrow> nextStep m = (m, [onCalibrationComplete (calibrationData m), onClose]))
   \<and> (21 \<le> length h \<longrightarrow>
        (detectGesture h = Some ''thumbs_up''
           \<longleftrightarrow> y (h ! 4) < y (h ! 0) - 0.1 \<and> y (h ! 8) > y (h ! 0) \<and> y (h ! 12) > y (h ! 0))
      \<and> (detectGesture h = Some ''pointing''
           \<longleftrightarrow> \<not> (y (h ! 4) < y (h ! 0) - 0.1 \<and> y (h ! 8) > y (h ! 0) \<and> y (h ! 12) > y (h ! 0))
               \<and> y (h ! 8) < y (h ! 0) - 0.05 \<and> y (h ! 12) > y (h ! 0)
               \<and> y (h ! 16) > y (h ! 0) \<and> y (h ! 20) > y (h ! 0))
      \<and> (detectGesture h = Some ''open_palm''
           \<longleftrightarrow> y (h ! 4) < y (h ! 0) \<and> y (h ! 8) < y (h ! 0) \<and> y (h ! 12) < y (h ! 0)
               \<and> y (h ! 16) < y (h ! 0) \<and> y (h ! 20) < y (h ! 0)))"
  by (auto simp: nextStep_def detectGesture_def Let_def)

theorem finish_hands_over_and_classifier_constant_witness:
  "currentStep calibratedModal = length CALIBRATION_STEPS - 1
   \<and> nextStep calibratedModal
       = (calibratedModal, [onCalibrationComplete (calibrationData calibratedModal), onClose])
   \<and> 21 \<le> length thumbHand
   \<and> y (thumbHand ! 4) < y (thumbHand ! 0) - 0.1
   \<and> detectGesture thumbHand = Some ''thumbs_up''
   \<and> detectGesture thumbHand \<noteq> Some ''pointing''
   \<and> detectGesture thumbHand \<noteq> Some ''open_palm''"
proof -
  have h1: "currentStep calibratedModal = length CALIBRATION_STEPS - 1"
    by (simp add: calibratedModal_facts CALIBRATION_STEPS_def)
  have h2: "21 \<le> length thumbHand"
    by (rule thumbHand_facts)
  have y: "y (thumbHand ! 0) = 0.8" "y (thumbHand ! 4) = 0.4" "y (thumbHand ! 8) = 0.9"
    "y (thumbHand ! 12) = 0.9"
    by (simp_all add: thumbHand_def poseHand_y)
  from finish_hands_over_and_classifier_constant[of calibratedModal thumbHand] h1 h2 y
  show ?thesis by simp
qed

section \<open>Properties of the motion-based swipe tracker\<close>

lemma detectSwipeGesture_few:
  "brightCount frame < 10 \<Longrightarrow> detectSwipeGesture s frame = (swipe_none, s)"
  by (cases "scanPixels frame 0 0 0") (simp add: detectSwipeGesture_def brightCount_def)

lemma detectSwipeGesture_cooldown:
  "10 \<le> brightCount frame \<Longrightarrow> 0 < gestureCooldown s \<Longrightarrow>
   detectSwipeGesture s frame
     = (swipe_none, s\<lparr>lastX := Some (centroid frame), gestureCooldown := gestureCooldown s - 1\<rparr>)"
  by (cases "scanPixels frame 0 0 0")
     (simp add: detectSwipeGesture_def brightCount_def centroid_def Let_def)

lemma detectSwipeGesture_swipe:
  "10 \<le> brightCount frame \<Longrightarrow> gestureCooldown s \<le> 0 \<Longrightarrow> lastX s = Some l \<Longrightarrow>
   50 < \<bar>centroid frame - l\<bar> \<Longrightarrow>
   detectSwipeGesture s frame
     = (if 0 < centroid frame - l then swipe_next else swipe_prev,
        s\<lparr>lastX := Some (centroid frame), gestureCooldown := 20\<rparr>)"
  by (cases "scanPixels frame 0 0 0")
     (simp add: detectSwipeGesture_def brightCount_def centroid_def Let_def)

lemma detectSwipeGesture_lastX:
  "10 \<le> brightCount frame \<Longrightarrow> lastX (snd (detectSwipeGesture s frame)) = Some (centroid frame)"
  by (cases "scanPixels frame 0 0 0")
     (simp add: detectSwipeGesture_def brightCount_def centroid_def Let_def split: option.splits)

text \<open>While the counter is at least the number of frames still to come, nothing is emitted.\<close>

lemma cooldown_holds:
  "int (length frames) \<le> gestureCooldown s \<Longrightarrow>
   detectAll s frames = replicate (length frames) swipe_none"
proof (induction frames arbitrary: s)
  case Nil
  show ?case by simp
next
  case (Cons frame frames)
  show ?case
  proof (cases "brightCount frame < 10")
    case True
    from Cons.prems have "int (length frames) \<le> gestureCooldown s" by simp
    from Cons.IH[OF this] show ?thesis
      by (simp add: detectSwipeGesture_few[OF True])
  next
    case False
    then have enough: "10 \<le> brightCount frame" by simp
    from Cons.prems have active: "0 < gestureCooldown s" by simp
    let ?s' = "s\<lparr>lastX := Some (centroid frame), gestureCooldown := gestureCooldown s - 1\<rparr>"
    from Cons.prems have "int (length frames) \<le> gestureCooldown ?s'" by simp
    from Cons.IH[OF this] show ?thesis
      by (simp add: detectSwipeGesture_cooldown[OF enough active])
  qed
qed

text \<open>
  C9. For every frame given to the tracker (as \<open>getImageData\<close> yields it): with
  fewer than 10 bright sampled pixels nothing is emitted (and no ref is written);
  otherwise the centroid of the bright pixels is recorded and, with a cooldown active,
  nothing is emitted and the counter goes down by one; otherwise, if the centroid lies
  more than 50 from the one recorded last, a right swipe (next) is emitted for a
  positive difference and a left swipe (prev) for a negative one, the counter is set to
  20, and none of the next 20 frames emits.
\<close>

theorem swipe_tracker_frame:
  assumes "wellFormed frame" and "\<forall>f \<in> set frames. wellFormed f"
  shows "(brightCount frame < 10 \<longrightarrow> detectSwipeGesture s frame = (swipe_none, s))
    \<and> (10 \<le> brightCount frame \<longrightarrow>
         lastX (snd (detectSwipeGesture s frame)) = Some (centroid frame))
    \<and> (10 \<le> brightCount frame \<and> 0 < gestureCooldown s \<longrightarrow>
         fst (detectSwipeGesture s frame) = swipe_none
         \<and> gestureCooldown (snd (detectSwipeGesture s frame)) = gestureCooldown s - 1)
    \<and> (10 \<le> brightCount frame \<and> gestureCooldown s \<le> 0 \<and> lastX s = Some l
         \<and> 50 < \<bar>centroid frame - l\<bar> \<longrightarrow>
         fst (detectSwipeGesture s frame)
           = (if 0 < centroid frame - l then swipe_next else swipe_prev)
         \<and> (centroid frame - l < 0 \<longrightarrow> fst (detectSwipeGesture s frame) = swipe_prev)
         \<and> gestureCooldown (snd (detectSwipeGesture s frame)) = 20
         \<and> (length frames \<le> 20 \<longrightarrow>
              detectAll (snd (detectSwipeGesture s frame)) frames
                = replicate (length frames) swipe_none))"
proof (intro conjI impI)
  assume "brightCount frame < 10"
  then show "detectSwipeGesture s frame = (swipe_none, s)"
    by (rule detectSwipeGesture_few)
next
  assume "10 \<le> brightCount frame"
  then show "lastX (snd (detectSwipeGesture s frame)) = Some (centroid frame)"
    by (rule detectSwipeGesture_lastX)
next
  assume a: "10 \<le> brightCount frame \<and> 0 < gestureCooldown s"
  then have eq: "detectSwipeGesture s frame
     = (swipe_none, s\<lparr>lastX := Some (centroid frame), gestureCooldown := gestureCooldown s - 1\<rparr>)"
    by (simp add: detectSwipeGesture_cooldown)
  show "fst (detectSwipeGesture s frame) = swipe_none"
    by (simp add: eq)
  show "gestureCooldown (snd (detectSwipeGesture s frame)) = gestureCooldown s - 1"
    by (simp add: eq)
next
  assume a: "10 \<le> brightCount frame \<and> gestureCooldown s \<le> 0 \<and> lastX s = Some l
         \<and> 50 < \<bar>centroid frame - l\<bar>"
  then have eq: "detectSwipeGesture s frame
     = (if 0 < centroid frame - l then swipe_next else swipe_prev,
        s\<lparr>lastX := Some (centroid frame), gestureCooldown := 20\<rparr>)"
    by (simp add: detectSwipeGesture_swipe)
  show "fst (detectSwipeGesture s frame) = (if 0 < centroid frame - l then swipe_next else swipe_prev)"
    by (simp add: eq)
  show "gestureCooldown (snd (detectSwipeGesture s frame)) = 20"
    by (simp add: eq)
  {
    assume "centroid frame - l < 0"
    then show "fst (detectSwipeGesture s frame) = swipe_prev"
      by (simp add: eq)
  }
  {
    assume "length frames \<le> 20"
    then have "int (length frames)
        \<le> gestureCooldown (s\<lparr>lastX := Some (centroid frame), gestureCooldown := 20\<rparr>)"
      by simp
    from cooldown_holds[OF this]
    show "detectAll (snd (detectSwipeGesture s frame)) frames
                = replicate (length frames) swipe_none"
      by (simp add: eq)
  }
qed

text \<open>The example frames: ten bright samples each, centred at 180 and at 580.\<close>

lemma scan_examples:
  "scanPixels leftBright 0 0 0 = (1800, 10)"
  "scanPixels rightBright 0 0 0 = (5800, 10)"
  "scanPixels darkFrame 0 0 0 = (0, 0)"
  by (simp_all add: scanPixels.simps leftBright_def rightBright_def darkFrame_def nth_append)

lemma example_frames:
  "wellFormed leftBright" "wellFormed rightBright" "wellFormed darkFrame"
  "brightCount leftBright = 10" "brightCount rightBright = 10" "brightCount darkFrame = 0"
  "centroid leftBright = 180" "centroid rightBright = 580"
  by (simp_all add: brightCount_def centroid_def scan_examples)
     (simp_all add: wellFormed_def leftBright_def rightBright_def darkFrame_def)

theorem swipe_tracker_frame_witness:
  "wellFormed darkFrame \<and> wellFormed leftBright \<and> wellFormed rightBright
   \<and> brightCount darkFrame < 10
   \<and> detectSwipeGesture initialSwipeState darkFrame = (swipe_none, initialSwipeState)
   \<and> 10 \<le> brightCount leftBright
   \<and> lastX (snd (detectSwipeGesture \<lparr>lastX = Some 580, gestureCooldown = 20\<rparr> leftBright))
       = Some 180
   \<and> 0 < gestureCooldown \<lparr>lastX = Some 580, gestureCooldown = 20\<rparr>
   \<and> fst (detectSwipeGesture \<lparr>lastX = Some 580, gestureCooldown = 20\<rparr> leftBright) = swipe_none
   \<and> gestureCooldown (snd (detectSwipeGesture \<lparr>lastX = Some 580, gestureCooldown = 20\<rparr> leftBright))
       = 19
   \<and> 10 \<le> brightCount rightBright
   \<and> 50 < \<bar>centroid rightBright - 180\<bar>
   \<and> fst (detectSwipeGesture \<lparr>lastX = Some 180, gestureCooldown = 0\<rparr> rightBright) = swipe_next
   \<and> gestureCooldown (snd (detectSwipeGesture \<lparr>lastX = Some 180, gestureCooldown = 0\<rparr> rightBright))
       = 20
   \<and> detectAll (snd (detectSwipeGesture \<lparr>lastX = Some 180, gestureCooldown = 0\<rparr> rightBright))
         [leftBright, rightBright, darkFrame]
       = [swipe_none, swipe_none, swipe_none]
   \<and> 50 < \<bar>centroid leftBright - 580\<bar> \<and> centroid leftBright - 580 < 0
   \<and> fst (detectSwipeGesture \<lparr>lastX = Some 580, gestureCooldown = 0\<rparr> leftBright) = swipe_prev"
proof -
  have frames: "\<forall>f \<in> set [leftBright, rightBright, darkFrame]. wellFormed f"
    by (simp add: example_frames)
  note few = swipe_tracker_frame[OF example_frames(3) frames, of initialSwipeState]
  note cool = swipe_tracker_frame[OF example_frames(1) frames,
      of "\<lparr>lastX = Some 580, gestureCooldown = 20\<rparr>"]
  note right = swipe_tracker_frame[OF example_frames(2) frames,
      of "\<lparr>lastX = Some 180, gestureCooldown = 0\<rparr>" 180]
  note left = swipe_tracker_frame[OF example_frames(1) frames,
      of "\<lparr>lastX = Some 580, gestureCooldown = 0\<rparr>" 580]
  have "detectSwipeGesture initialSwipeState darkFrame = (swipe_none, initialSwipeState)"
    using few by (simp add: example_frames)
  moreover have "fst (detectSwipeGesture \<lparr>lastX = Some 580, gestureCooldown = 20\<rparr> leftBright) = swipe_none"
    and "gestureCooldown (snd (detectSwipeGesture \<lparr>lastX = Some 580, gestureCooldown = 20\<rparr> leftBright)) = 19"
    and "lastX (snd (detectSwipeGesture \<lparr>lastX = Some 580, gestureCooldown = 20\<rparr> leftBright)) = Some 180"
    using cool by (simp_all add: example_frames)
  moreover have "fst (detectSwipeGesture \<lparr>lastX = Some 180, gestureCooldown = 0\<rparr> rightBright) = swipe_next"
    and "gestureCooldown (snd (detectSwipeGesture \<lparr>lastX = Some 180, gestureCooldown = 0\<rparr> rightBright)) = 20"
    and "detectAll (snd (detectSwipeGesture \<lparr>lastX = Some 180, gestureCooldown = 0\<rparr> rightBright))
         [leftBright, rightBright, darkFrame] = [swipe_none, swipe_none, swipe_none]"
    using right by (simp_all add: example_frames)
  moreover have "fst (detectSwipeGesture \<lparr>lastX = Some 580, gestureCooldown = 0\<rparr> leftBright) = swipe_prev"
    using left by (simp add: example_frames)
  ultimately show ?thesis
    by (simp add: example_frames)
qed

end
